theory Spec2Isabelle
  imports Complex_Main
begin

section \<open>JavaScript values handled by the car-listing parser\<close>

text \<open>
  The parser works on what \<^verbatim>\<open>JSON.parse\<close> returns, typed \<^verbatim>\<open>any\<close> in the source.
  A number is an IEEE double: a rational, or one of the two infinities
  (\<^verbatim>\<open>JSON.parse("1e999")\<close> is \<^verbatim>\<open>Infinity\<close>). \<^verbatim>\<open>JSON.parse\<close> never yields NaN, and
  \<open>-0\<close> compares like \<open>0\<close> in every test the source makes, so neither has a constructor.
\<close>

datatype jsnum = Fin rat | PosInf | NegInf

text \<open>
  The fuel-type table of the validator is a plain object literal, so a lookup in it also
  finds what it inherits from \<^verbatim>\<open>Object.prototype\<close>. Two inherited names are spelled in
  lower case only: \<^verbatim>\<open>constructor\<close> (the function \<^verbatim>\<open>Object\<close>) and \<^verbatim>\<open>__proto__\<close>
  (\<^verbatim>\<open>Object.prototype\<close> itself). These two host objects are the only values in the
  program that are not JSON data.
\<close>

datatype host = ObjectConstructor | ObjectPrototype

text \<open>
  A string is the list of its code units; the model covers the strings whose code units
  are below 256 (Latin-1), one \<^typ>\<open>char\<close> each. An object is the list of its own
  properties, the first binding of a key being the property's value.
\<close>

datatype jsvalue =
    JNull
  | JBool bool
  | JNumber jsnum
  | JString string
  | JArray "jsvalue list"
  | JObject "(string \<times> jsvalue) list"
  | JHost host

datatype jstype = TObject | TBoolean | TNumber | TString | TFunction

text \<open>\<^verbatim>\<open>typeof v\<close>; \<^verbatim>\<open>typeof null\<close> and \<^verbatim>\<open>typeof []\<close> are both \<^verbatim>\<open>'object'\<close>.\<close>

fun typeof :: "jsvalue \<Rightarrow> jstype" where
  "typeof JNull = TObject"
| "typeof (JBool b) = TBoolean"
| "typeof (JNumber n) = TNumber"
| "typeof (JString s) = TString"
| "typeof (JArray xs) = TObject"
| "typeof (JObject kvs) = TObject"
| "typeof (JHost ObjectConstructor) = TFunction"
| "typeof (JHost ObjectPrototype) = TObject"

text \<open>ToBoolean: what \<^verbatim>\<open>if (v)\<close>, \<^verbatim>\<open>!v\<close>, \<^verbatim>\<open>v && w\<close> and \<^verbatim>\<open>v || w\<close> test.\<close>

fun truthy :: "jsvalue \<Rightarrow> bool" where
  "truthy JNull = False"
| "truthy (JBool b) = b"
| "truthy (JNumber n) = (n \<noteq> Fin 0)"
| "truthy (JString s) = (s \<noteq> [])"
| "truthy (JArray xs) = True"
| "truthy (JObject kvs) = True"
| "truthy (JHost h) = True"

text \<open>The same test on the result of a property read, where \<open>None\<close> is \<^verbatim>\<open>undefined\<close>.\<close>

fun truthy_opt :: "jsvalue option \<Rightarrow> bool" where
  "truthy_opt None = False"
| "truthy_opt (Some v) = truthy v"

text \<open>
  \<^verbatim>\<open>Array.isArray(v)\<close> on the result of a property read, giving the elements when it
  holds.
\<close>

fun isArray :: "jsvalue option \<Rightarrow> jsvalue list option" where
  "isArray (Some (JArray xs)) = Some xs"
| "isArray v = None"

text \<open>\<^verbatim>\<open>a < b\<close> on two numbers.\<close>

fun num_less :: "jsnum \<Rightarrow> jsnum \<Rightarrow> bool" where
  "num_less (Fin a) (Fin b) = (a < b)"
| "num_less (Fin a) PosInf = True"
| "num_less NegInf (Fin b) = True"
| "num_less NegInf PosInf = True"
| "num_less a b = False"

subsection \<open>Property reads\<close>

text \<open>
  What is thrown: an instance of \<^verbatim>\<open>Error\<close> (or of a subclass: \<^verbatim>\<open>TypeError\<close>,
  \<^verbatim>\<open>SyntaxError\<close>) with its message, or a value that is not an \<^verbatim>\<open>Error\<close>, such as the
  plain error object of a remote call. The source tests \<^verbatim>\<open>instanceof Error\<close> and reads
  \<^verbatim>\<open>.message\<close>, nothing else.
\<close>

datatype thrown = Error string | NonError string

text \<open>
  The messages of the engine's own \<^verbatim>\<open>TypeError\<close>s, in V8's wording (the wording differs
  between engines; the source never inspects it).
\<close>

definition null_property_message :: "string \<Rightarrow> string" where
  "null_property_message k =
     ''Cannot read properties of null (reading '' @ [CHR 0x27] @ k @ [CHR 0x27] @ '')''"

definition undefined_property_message :: "string \<Rightarrow> string" where
  "undefined_property_message k =
     ''Cannot read properties of undefined (reading '' @ [CHR 0x27] @ k @ [CHR 0x27] @ '')''"

definition not_a_function_message :: "string \<Rightarrow> string" where
  "not_a_function_message f = f @ '' is not a function''"

text \<open>
  \<open>field v k\<close> is \<^verbatim>\<open>v.k\<close> for a receiver that is not \<^verbatim>\<open>null\<close>, for the names the source
  reads (\<^verbatim>\<open>listings\<close>, \<^verbatim>\<open>make\<close>, \<^verbatim>\<open>fuel_type\<close>, \<^verbatim>\<open>choices\<close>, \<^verbatim>\<open>message\<close>, ...): none of
  them is an index or a name that a string, a number, an array or \<^verbatim>\<open>Object.prototype\<close>
  defines, so the read finds an own property of an object and \<^verbatim>\<open>undefined\<close> elsewhere.
\<close>

fun field :: "jsvalue \<Rightarrow> string \<Rightarrow> jsvalue option" where
  "field (JObject kvs) k = map_of kvs k"
| "field v k = None"

text \<open>\<^verbatim>\<open>v.k\<close> for any receiver: reading a property of \<^verbatim>\<open>null\<close> raises a \<^verbatim>\<open>TypeError\<close>.\<close>

fun get_prop :: "jsvalue \<Rightarrow> string \<Rightarrow> string + jsvalue option" where
  "get_prop JNull k = Inl (null_property_message k)"
| "get_prop v k = Inr (field v k)"

section \<open>The response normalizer\<close>

text \<open>
  \<^verbatim>\<open>JSON.parse\<close> belongs to the runtime, not to the repository: it is a parameter, giving
  the parsed value or the message of the \<^verbatim>\<open>SyntaxError\<close> it raises.
\<close>

type_synonym json_parser = "string \<Rightarrow> string + jsvalue"

text \<open>
  The body of the \<^verbatim>\<open>try\<close> block of \<^verbatim>\<open>parseAIResponse\<close>; \<open>Inl\<close> is the message of the
  error raised inside it.
\<close>

definition parseAIResponse_try :: "json_parser \<Rightarrow> string \<Rightarrow> string + jsvalue list" where
  "parseAIResponse_try json_parse text =
     (case json_parse text of
        Inl syntax_error \<Rightarrow> Inl syntax_error
      | Inr parsed \<Rightarrow>
          (case get_prop parsed ''listings'' of
             Inl type_error \<Rightarrow> Inl type_error
           | Inr listings \<Rightarrow>
               (case (if truthy_opt listings then isArray listings else None) of
                  Some xs \<Rightarrow> Inr xs
                | None \<Rightarrow>
                    (case isArray (Some parsed) of
                       Some xs \<Rightarrow> Inr xs
                     | None \<Rightarrow>
                         if typeof parsed = TObject then Inr [parsed]
                         else Inl ''Invalid response format''))))"

text \<open>
  The \<^verbatim>\<open>catch\<close> of \<^verbatim>\<open>parseAIResponse\<close> wraps every error of the body, its own
  \<^verbatim>\<open>'Invalid response format'\<close> included.
\<close>

definition parseAIResponse :: "json_parser \<Rightarrow> string \<Rightarrow> thrown + jsvalue list" where
  "parseAIResponse json_parse text =
     (case parseAIResponse_try json_parse text of
        Inl msg \<Rightarrow> Inl (Error (''Failed to parse AI response: '' @ msg))
      | Inr listings \<Rightarrow> Inr listings)"

text \<open>The error a caller sees when the body raised \<^verbatim>\<open>'Invalid response format'\<close>.\<close>

definition invalid_response_format :: thrown where
  "invalid_response_format = Error ''Failed to parse AI response: Invalid response format''"

text \<open>A scalar: a boolean, a number or a string.\<close>

fun is_scalar :: "jsvalue \<Rightarrow> bool" where
  "is_scalar (JBool b) = True"
| "is_scalar (JNumber n) = True"
| "is_scalar (JString s) = True"
| "is_scalar v = False"

section \<open>Strings\<close>

text \<open>
  The code units below 256 that \<^verbatim>\<open>String.prototype.trim\<close> strips: tab, line feed,
  vertical tab, form feed, carriage return, space and the no-break space.
\<close>

definition js_whitespace :: "char \<Rightarrow> bool" where
  "js_whitespace c = (of_char c \<in> {9, 10, 11, 12, 13, 32, 160 :: nat})"

definition trim :: "string \<Rightarrow> string" where
  "trim s = rev (dropWhile js_whitespace (rev (dropWhile js_whitespace s)))"

text \<open>
  \<^verbatim>\<open>String.prototype.toLowerCase\<close> on Latin-1: \<open>A\<close> to \<open>Z\<close> and the accented capitals
  (0xC0 to 0xDE, the multiplication sign 0xD7 apart) move up by 32, everything else stays.
\<close>

definition toLowerCase_unit :: "char \<Rightarrow> char" where
  "toLowerCase_unit c =
     (let n = (of_char c :: nat) in
      if (65 \<le> n \<and> n \<le> 90) \<or> (192 \<le> n \<and> n \<le> 222 \<and> n \<noteq> 215) then char_of (n + 32)
      else c)"

definition toLowerCase :: "string \<Rightarrow> string" where
  "toLowerCase s = map toLowerCase_unit s"

section \<open>The listing validator\<close>

text \<open>\<^verbatim>\<open>typeof v !== 'string' || !v.trim()\<close>\<close>

fun blank_or_not_string :: "jsvalue option \<Rightarrow> bool" where
  "blank_or_not_string (Some (JString s)) = (trim s = [])"
| "blank_or_not_string v = True"

text \<open>\<^verbatim>\<open>typeof v !== 'number' || v < 0\<close>\<close>

fun negative_or_not_number :: "jsvalue option \<Rightarrow> bool" where
  "negative_or_not_number (Some (JNumber n)) = num_less n (Fin 0)"
| "negative_or_not_number v = True"

text \<open>
  \<^verbatim>\<open>typeof v !== 'number' || v < 1900 || v > new Date().getFullYear() + 1\<close>, the
  current year being the first argument.
\<close>

fun year_out_of_range :: "int \<Rightarrow> jsvalue option \<Rightarrow> bool" where
  "year_out_of_range year_now (Some (JNumber n)) =
     (num_less n (Fin 1900) \<or> num_less (Fin (of_int (year_now + 1))) n)"
| "year_out_of_range year_now v = True"

text \<open>\<^verbatim>\<open>if (v !== undefined) { if (typeof v !== 'number' || v < 0) return false; }\<close>\<close>

fun optional_invalid :: "jsvalue option \<Rightarrow> bool" where
  "optional_invalid None = False"
| "optional_invalid (Some v) = negative_or_not_number (Some v)"

definition fuelTypeMap :: "(string \<times> string) list" where
  "fuelTypeMap =
     [(''gasoline'', ''Petrol''),
      (''gas'', ''Petrol''),
      (''petrol'', ''Petrol''),
      (''diesel'', ''Diesel''),
      (''electric'', ''Electric''),
      (''hybrid'', ''Hybrid''),
      (''plug-in hybrid'', ''Plug-in Hybrid''),
      (''plugin hybrid'', ''Plug-in Hybrid''),
      (''phev'', ''Plug-in Hybrid'')]"

text \<open>
  \<^verbatim>\<open>fuelTypeMap[k]\<close> for a lower-cased \<open>k\<close>: an entry of the table, or else what the
  object literal inherits under that name.
\<close>

definition fuelTypeMap_lookup :: "string \<Rightarrow> jsvalue option" where
  "fuelTypeMap_lookup k =
     (case map_of fuelTypeMap k of
        Some canonical \<Rightarrow> Some (JString canonical)
      | None \<Rightarrow>
          if k = ''constructor'' then Some (JHost ObjectConstructor)
          else if k = ''__proto__'' then Some (JHost ObjectPrototype)
          else None)"

text \<open>\<^verbatim>\<open>obj.k = v\<close> and \<^verbatim>\<open>delete obj.k\<close> on the list of own properties.\<close>

fun assign :: "string \<Rightarrow> jsvalue \<Rightarrow> (string \<times> jsvalue) list \<Rightarrow> (string \<times> jsvalue) list" where
  "assign k v [] = [(k, v)]"
| "assign k v ((k', v') # kvs) = (if k' = k then (k, v) # kvs else (k', v') # assign k v kvs)"

definition remove :: "string \<Rightarrow> (string \<times> jsvalue) list \<Rightarrow> (string \<times> jsvalue) list" where
  "remove k kvs = filter (\<lambda>(k', v'). k' \<noteq> k) kvs"

text \<open>
  The validator writes to a listing only after its required fields passed, which only
  an object with own properties can; the second equations are never used.
\<close>

fun set_field :: "jsvalue \<Rightarrow> string \<Rightarrow> jsvalue \<Rightarrow> jsvalue" where
  "set_field (JObject kvs) k v = JObject (assign k v kvs)"
| "set_field w k v = w"

fun delete_field :: "jsvalue \<Rightarrow> string \<Rightarrow> jsvalue" where
  "delete_field (JObject kvs) k = JObject (remove k kvs)"
| "delete_field w k = w"

text \<open>
  The block \<^verbatim>\<open>if (listing.fuel_type) { ... }\<close> and the \<^verbatim>\<open>return true\<close> after it. The call
  \<^verbatim>\<open>listing.fuel_type.toLowerCase()\<close> raises a \<^verbatim>\<open>TypeError\<close> when the field is not a
  string: no other value has a method of that name. The result is the verdict and the
  listing as the validator leaves it.
\<close>

definition normalize_fuel_type :: "jsvalue \<Rightarrow> string + bool \<times> jsvalue" where
  "normalize_fuel_type listing =
     (case field listing ''fuel_type'' of
        None \<Rightarrow> Inr (True, listing)
      | Some fuel_type \<Rightarrow>
          if \<not> truthy fuel_type then Inr (True, listing)
          else
            (case fuel_type of
               JString s \<Rightarrow>
                 (case fuelTypeMap_lookup (toLowerCase s) of
                    Some normalizedFuelType \<Rightarrow>
                      if truthy normalizedFuelType
                      then Inr (True, set_field listing ''fuel_type'' normalizedFuelType)
                      else Inr (True, delete_field listing ''fuel_type'')
                  | None \<Rightarrow> Inr (True, delete_field listing ''fuel_type''))
             | _ \<Rightarrow> Inl (not_a_function_message ''listing.fuel_type.toLowerCase'')))"

text \<open>The big \<^verbatim>\<open>if\<close> over the five required fields.\<close>

definition required_fields_fail :: "int \<Rightarrow> jsvalue \<Rightarrow> bool" where
  "required_fields_fail year_now listing =
     (blank_or_not_string (field listing ''make'') \<or>
      blank_or_not_string (field listing ''model'') \<or>
      year_out_of_range year_now (field listing ''year'') \<or>
      negative_or_not_number (field listing ''mileage'') \<or>
      negative_or_not_number (field listing ''price''))"

text \<open>
  The body of the \<^verbatim>\<open>try\<close> block of \<^verbatim>\<open>validateListing\<close>; \<open>Inl\<close> is the message of the
  error raised inside it.
\<close>

definition validateListing_try :: "int \<Rightarrow> jsvalue \<Rightarrow> string + bool \<times> jsvalue" where
  "validateListing_try year_now listing =
     (if \<not> truthy listing \<or> typeof listing \<noteq> TObject then Inr (False, listing)
      else if required_fields_fail year_now listing then Inr (False, listing)
      else if optional_invalid (field listing ''co2'') then Inr (False, listing)
      else if optional_invalid (field listing ''power_kw'') then Inr (False, listing)
      else if optional_invalid (field listing ''power_hp'') then Inr (False, listing)
      else if optional_invalid (field listing ''number_of_doors'') then Inr (False, listing)
      else if optional_invalid (field listing ''number_of_seats'') then Inr (False, listing)
      else normalize_fuel_type listing)"

text \<open>
  \<^verbatim>\<open>validateListing\<close>: the \<^verbatim>\<open>catch\<close> turns an error of the body into \<^verbatim>\<open>false\<close>. The
  body writes to the listing only in its last statements, after the one call that can
  raise, so a listing that raised is unchanged.
\<close>

definition validateListing :: "int \<Rightarrow> jsvalue \<Rightarrow> bool \<times> jsvalue" where
  "validateListing year_now listing =
     (case validateListing_try year_now listing of
        Inl msg \<Rightarrow> (False, listing)
      | Inr verdict \<Rightarrow> verdict)"

text \<open>
  \<^verbatim>\<open>parsedListings.filter(validateListing)\<close>: the listings the validator accepts, each as
  the validator left it.
\<close>

fun filter_validateListing :: "int \<Rightarrow> jsvalue list \<Rightarrow> jsvalue list" where
  "filter_validateListing year_now [] = []"
| "filter_validateListing year_now (listing # rest) =
     (case validateListing year_now listing of
        (True, listing') \<Rightarrow> listing' # filter_validateListing year_now rest
      | (False, listing') \<Rightarrow> filter_validateListing year_now rest)"

section \<open>The outside world\<close>

text \<open>
  A remote call to the settings store resolves to \<^verbatim>\<open>{ data, error }\<close>: the store's
  functions return text (\<open>None\<close> is \<^verbatim>\<open>null\<close>), and \<^verbatim>\<open>error\<close> is \<^verbatim>\<open>null\<close> or an error
  object.
\<close>

record rpc_reply =
  rpc_data :: "string option"
  rpc_error :: "thrown option"

text \<open>The request of the two chat-completion adapters, as \<^verbatim>\<open>fetch\<close> receives it.\<close>

record chat_request =
  url :: string
  authorization :: string
  http_referer :: "string option"
  x_title :: "string option"
  model :: string
  system_content :: string
  user_content :: string
  temperature :: rat
  response_format :: string
  fallbacks :: "string list option"

text \<open>
  The response of \<^verbatim>\<open>fetch\<close>: its \<^verbatim>\<open>ok\<close> flag and what \<^verbatim>\<open>response.json()\<close> resolves
  to, or rejects with.
\<close>

record http_response =
  ok :: bool
  json :: "thrown + jsvalue"

text \<open>
  What the runtime and the remote services answer. \<open>generateContent env key prompt raw\<close>
  is the text of the Gemini SDK's reply (\<^verbatim>\<open>generateContent\<close>, \<^verbatim>\<open>result.response\<close>,
  \<^verbatim>\<open>response.text()\<close>) or what any of the three raises; \<open>String_of\<close> is the conversion
  to a string of a value that is not one; \<open>getFullYear\<close> is the current year.
\<close>

record env =
  rpc :: "string \<Rightarrow> rpc_reply"
  JSON_parse :: json_parser
  String_of :: "jsvalue \<Rightarrow> string"
  generateContent :: "string \<Rightarrow> string \<Rightarrow> string \<Rightarrow> thrown + string"
  fetch :: "chat_request \<Rightarrow> thrown + http_response"
  getFullYear :: int
  location_origin :: string

text \<open>
  The calls that leave the program, in the order they are issued: a remote call to the
  settings store by its name, a request to the Gemini SDK with the key, the prompt and the
  raw text, and a \<^verbatim>\<open>fetch\<close> with its request.
\<close>

datatype effect =
    RpcCall string
  | GeminiCall string string string
  | FetchCall chat_request

text \<open>ToString, as \<^verbatim>\<open>new Error(v)\<close> and \<^verbatim>\<open>JSON.parse(v)\<close> apply it.\<close>

definition ToString :: "env \<Rightarrow> jsvalue \<Rightarrow> string" where
  "ToString env v = (case v of JString s \<Rightarrow> s | _ \<Rightarrow> String_of env v)"

text \<open>\<^verbatim>\<open>error instanceof Error ? error : new Error(fallback)\<close>\<close>

fun as_Error :: "string \<Rightarrow> thrown \<Rightarrow> thrown" where
  "as_Error fallback (Error msg) = Error msg"
| "as_Error fallback (NonError obj) = Error fallback"

text \<open>\<^verbatim>\<open>data || fallback\<close> on the text of a reply.\<close>

fun or_default :: "string option \<Rightarrow> string \<Rightarrow> string" where
  "or_default None fallback = fallback"
| "or_default (Some s) fallback = (if s = [] then fallback else s)"

section \<open>The settings accessor\<close>

text \<open>
  The settings bundle; the constructor is its \<^verbatim>\<open>ai_provider\<close> tag, the arguments are
  the API key and the prompt, and for OpenRouter the site URL and the site name.
\<close>

datatype settings =
    GeminiSettings string string
  | DeepseekSettings string string
  | OpenRouterSettings string string string string

text \<open>
  The chain \<^verbatim>\<open>if (apiKeyError) throw apiKeyError; if (promptError) throw promptError; ...\<close>
  over the replies of one \<^verbatim>\<open>Promise.all\<close>: the first error in the order of the array.
\<close>

fun first_error :: "rpc_reply list \<Rightarrow> thrown option" where
  "first_error [] = None"
| "first_error (r # rs) = (case rpc_error r of Some e \<Rightarrow> Some e | None \<Rightarrow> first_error rs)"

text \<open>
  \<^verbatim>\<open>getSettings\<close>. The three branches of the \<^verbatim>\<open>switch\<close> issue all their calls before
  they test any reply. The \<^verbatim>\<open>catch\<close> passes an \<^verbatim>\<open>Error\<close> on and replaces anything else.
\<close>

definition getSettings :: "env \<Rightarrow> (thrown + settings) \<times> effect list" where
  "getSettings env =
     (let provider = rpc env ''get_ai_provider'';
          issued = [RpcCall ''get_ai_provider'']
      in
      case rpc_error provider of
        Some providerError \<Rightarrow> (Inl (as_Error ''Failed to load AI settings'' providerError), issued)
      | None \<Rightarrow>
          (let currentProvider = or_default (rpc_data provider) ''gemini'' in
           if currentProvider = ''gemini'' then
             (let apiKey = rpc env ''get_gemini_apikey'';
                  prompt = rpc env ''get_gemini_prompt'';
                  issued' = issued @ [RpcCall ''get_gemini_apikey'', RpcCall ''get_gemini_prompt'']
              in
              case first_error [apiKey, prompt] of
                Some e \<Rightarrow> (Inl (as_Error ''Failed to load AI settings'' e), issued')
              | None \<Rightarrow>
                  (Inr (GeminiSettings (or_default (rpc_data apiKey) [])
                          (or_default (rpc_data prompt) [])), issued'))
           else if currentProvider = ''deepseek'' then
             (let apiKey = rpc env ''get_deepseek_apikey'';
                  prompt = rpc env ''get_deepseek_prompt'';
                  issued' = issued @ [RpcCall ''get_deepseek_apikey'', RpcCall ''get_deepseek_prompt'']
              in
              case first_error [apiKey, prompt] of
                Some e \<Rightarrow> (Inl (as_Error ''Failed to load AI settings'' e), issued')
              | None \<Rightarrow>
                  (Inr (DeepseekSettings (or_default (rpc_data apiKey) [])
                          (or_default (rpc_data prompt) [])), issued'))
           else if currentProvider = ''openrouter'' then
             (let apiKey = rpc env ''get_openrouter_apikey'';
                  prompt = rpc env ''get_openrouter_prompt'';
                  siteUrl = rpc env ''get_openrouter_site_url'';
                  siteName = rpc env ''get_openrouter_site_name'';
                  issued' = issued @
                    [RpcCall ''get_openrouter_apikey'', RpcCall ''get_openrouter_prompt'',
                     RpcCall ''get_openrouter_site_url'', RpcCall ''get_openrouter_site_name'']
              in
              case first_error [apiKey, prompt, siteUrl, siteName] of
                Some e \<Rightarrow> (Inl (as_Error ''Failed to load AI settings'' e), issued')
              | None \<Rightarrow>
                  (Inr (OpenRouterSettings (or_default (rpc_data apiKey) [])
                          (or_default (rpc_data prompt) [])
                          (or_default (rpc_data siteUrl) (location_origin env))
                          (or_default (rpc_data siteName) ''BananaDB'')), issued'))
           else (Inl (Error (''Unknown AI provider: '' @ currentProvider)), issued)))"

section \<open>The provider adapters\<close>

text \<open>
  \<^verbatim>\<open>!apiKey?.trim()\<close>: the key is \<^verbatim>\<open>null\<close> or \<^verbatim>\<open>undefined\<close> (\<open>None\<close>), or empty once
  trimmed.
\<close>

fun key_missing :: "string option \<Rightarrow> bool" where
  "key_missing None = True"
| "key_missing (Some apiKey) = (trim apiKey = [])"

text \<open>\<^verbatim>\<open>apiKey.trim()\<close>, once the key is known to be there.\<close>

fun trimmed_key :: "string option \<Rightarrow> string" where
  "trimmed_key None = []"
| "trimmed_key (Some apiKey) = trim apiKey"

definition parseWithGemini ::
  "env \<Rightarrow> string \<Rightarrow> string \<Rightarrow> string option \<Rightarrow> (thrown + jsvalue list) \<times> effect list" where
  "parseWithGemini env prompt rawData apiKey =
     (if key_missing apiKey then (Inl (Error ''Gemini API key is required''), [])
      else
        (let issued = [GeminiCall (trimmed_key apiKey) prompt rawData] in
         case generateContent env (trimmed_key apiKey) prompt rawData of
           Inl e \<Rightarrow> (Inl e, issued)
         | Inr text \<Rightarrow> (parseAIResponse (JSON_parse env) text, issued)))"

text \<open>\<^verbatim>\<open>v[0]\<close>: a \<^verbatim>\<open>TypeError\<close> on \<^verbatim>\<open>undefined\<close> and \<^verbatim>\<open>null\<close>.\<close>

fun first_element :: "jsvalue option \<Rightarrow> string + jsvalue option" where
  "first_element None = Inl (undefined_property_message ''0'')"
| "first_element (Some JNull) = Inl (null_property_message ''0'')"
| "first_element (Some (JArray xs)) = Inr (case xs of [] \<Rightarrow> None | x # rest \<Rightarrow> Some x)"
| "first_element (Some (JString s)) = Inr (case s of [] \<Rightarrow> None | c # rest \<Rightarrow> Some (JString [c]))"
| "first_element (Some v) = Inr (field v ''0'')"

text \<open>\<^verbatim>\<open>v?.k\<close>\<close>

fun optional_chain :: "jsvalue option \<Rightarrow> string \<Rightarrow> jsvalue option" where
  "optional_chain None k = None"
| "optional_chain (Some JNull) k = None"
| "optional_chain (Some v) k = field v k"

text \<open>
  What both chat-completion adapters do with the outcome of \<^verbatim>\<open>fetch\<close>, inside their
  \<^verbatim>\<open>try\<close> block (whose \<^verbatim>\<open>catch\<close> rethrows what it caught); the two differ in the
  provider's name in the messages.
\<close>

definition read_chat_response ::
  "env \<Rightarrow> string \<Rightarrow> thrown + http_response \<Rightarrow> thrown + jsvalue list" where
  "read_chat_response env provider fetched =
     (case fetched of
        Inl e \<Rightarrow> Inl e
      | Inr response \<Rightarrow>
          (case json response of
             Inl e \<Rightarrow> Inl e
           | Inr body \<Rightarrow>
               if \<not> ok response then
                 (case get_prop body ''error'' of
                    Inl type_error \<Rightarrow> Inl (Error type_error)
                  | Inr err \<Rightarrow>
                      (case optional_chain err ''message'' of
                         None \<Rightarrow> Inl (Error (''Failed to get response from '' @ provider))
                       | Some msg \<Rightarrow>
                           if truthy msg then Inl (Error (ToString env msg))
                           else Inl (Error (''Failed to get response from '' @ provider))))
               else
                 (case get_prop body ''choices'' of
                    Inl type_error \<Rightarrow> Inl (Error type_error)
                  | Inr choices \<Rightarrow>
                      (case first_element choices of
                         Inl type_error \<Rightarrow> Inl (Error type_error)
                       | Inr choice \<Rightarrow>
                           (case optional_chain (optional_chain choice ''message'') ''content'' of
                              None \<Rightarrow> Inl (Error (''No content in '' @ provider @ '' response''))
                            | Some content \<Rightarrow>
                                if \<not> truthy content
                                then Inl (Error (''No content in '' @ provider @ '' response''))
                                else parseAIResponse (JSON_parse env) (ToString env content))))))"

definition parseWithDeepseek ::
  "env \<Rightarrow> string \<Rightarrow> string \<Rightarrow> string option \<Rightarrow> (thrown + jsvalue list) \<times> effect list" where
  "parseWithDeepseek env prompt rawData apiKey =
     (if key_missing apiKey then (Inl (Error ''Deepseek API key is required''), [])
      else
        (let request = \<lparr>url = ''https://api.deepseek.com/v1/chat/completions'',
                        authorization = ''Bearer '' @ trimmed_key apiKey,
                        http_referer = None,
                        x_title = None,
                        model = ''deepseek-chat'',
                        system_content = prompt,
                        user_content = rawData,
                        temperature = 3 / 10,
                        response_format = ''json_object'',
                        fallbacks = None\<rparr>
         in (read_chat_response env ''Deepseek'' (fetch env request), [FetchCall request])))"

definition parseWithOpenRouter ::
  "env \<Rightarrow> string \<Rightarrow> string \<Rightarrow> string option \<Rightarrow> string \<Rightarrow> string \<Rightarrow>
     (thrown + jsvalue list) \<times> effect list" where
  "parseWithOpenRouter env prompt rawData apiKey siteUrl siteName =
     (if key_missing apiKey then (Inl (Error ''OpenRouter API key is required''), [])
      else
        (let request = \<lparr>url = ''https://openrouter.ai/api/v1/chat/completions'',
                        authorization = ''Bearer '' @ trimmed_key apiKey,
                        http_referer = Some siteUrl,
                        x_title = Some siteName,
                        model = ''deepseek/deepseek-r1:free'',
                        system_content = prompt,
                        user_content = rawData,
                        temperature = 3 / 10,
                        response_format = ''json_object'',
                        fallbacks = Some [''anthropic/claude-3-sonnet'', ''gryphe/mythomax-l2-13b'']\<rparr>
         in (read_chat_response env ''OpenRouter'' (fetch env request), [FetchCall request])))"

section \<open>The orchestration\<close>

text \<open>
  The \<^verbatim>\<open>switch (settings.ai_provider)\<close> of \<^verbatim>\<open>parseCarListing\<close>: the checks of the key and
  the prompt, then the adapter.
\<close>

fun call_provider :: "env \<Rightarrow> settings \<Rightarrow> string \<Rightarrow> (thrown + jsvalue list) \<times> effect list" where
  "call_provider env (OpenRouterSettings openrouter_api_key openrouter_prompt site_url site_name) rawData =
     (if openrouter_api_key = [] then (Inl (Error ''OpenRouter API key is required''), [])
      else if openrouter_prompt = [] then (Inl (Error ''OpenRouter prompt is required''), [])
      else parseWithOpenRouter env openrouter_prompt rawData (Some openrouter_api_key)
             (or_default (Some site_url) (location_origin env))
             (or_default (Some site_name) ''BananaDB''))"
| "call_provider env (DeepseekSettings deepseek_api_key deepseek_prompt) rawData =
     (if deepseek_api_key = [] then (Inl (Error ''Deepseek API key is required''), [])
      else if deepseek_prompt = [] then (Inl (Error ''Deepseek prompt is required''), [])
      else parseWithDeepseek env deepseek_prompt rawData (Some deepseek_api_key))"
| "call_provider env (GeminiSettings gemini_api_key gemini_prompt) rawData =
     (if gemini_api_key = [] then (Inl (Error ''Gemini API key is required''), [])
      else if gemini_prompt = [] then (Inl (Error ''Gemini prompt is required''), [])
      else parseWithGemini env gemini_prompt rawData (Some gemini_api_key))"

text \<open>
  \<^verbatim>\<open>parseCarListing\<close>. The blank test is outside the \<^verbatim>\<open>try\<close>; the \<^verbatim>\<open>catch\<close> passes an
  \<^verbatim>\<open>Error\<close> on and replaces anything else.
\<close>

definition parseCarListing :: "env \<Rightarrow> string \<Rightarrow> (thrown + jsvalue list) \<times> effect list" where
  "parseCarListing env rawData =
     (if trim rawData = [] then (Inl (Error ''No data provided''), [])
      else
        (case getSettings env of
           (Inl e, loaded) \<Rightarrow> (Inl (as_Error ''Failed to parse car listing data'' e), loaded)
         | (Inr settings, loaded) \<Rightarrow>
             (case call_provider env settings rawData of
                (Inl e, called) \<Rightarrow>
                  (Inl (as_Error ''Failed to parse car listing data'' e), loaded @ called)
              | (Inr parsedListings, called) \<Rightarrow>
                  (let validListings = filter_validateListing (getFullYear env) parsedListings in
                   if length validListings = 0
                   then (Inl (Error ''No valid listings found in the response''), loaded @ called)
                   else (Inr validListings, loaded @ called)))))"

section \<open>The claims' own words\<close>

text \<open>
  The reasons for which the specification says the validator rejects a candidate, read
  from the specification and not from the code: the candidate is not an object; \<open>make\<close>
  or \<open>model\<close> is not a string that is non-empty after trimming; \<open>year\<close> is not a number
  in \<open>[1900, current year + 1]\<close>; \<open>mileage\<close> or \<open>price\<close> is not a number \<open>\<ge> 0\<close>; an optional
  numeric field is present and is not a number \<open>\<ge> 0\<close>.
\<close>

fun num_le :: "jsnum \<Rightarrow> jsnum \<Rightarrow> bool" where
  "num_le (Fin a) (Fin b) = (a \<le> b)"
| "num_le NegInf b = True"
| "num_le a PosInf = True"
| "num_le a b = False"

fun is_object :: "jsvalue \<Rightarrow> bool" where
  "is_object (JObject kvs) = True"
| "is_object (JArray xs) = True"
| "is_object (JHost ObjectPrototype) = True"
| "is_object v = False"

fun nonblank_string :: "jsvalue option \<Rightarrow> bool" where
  "nonblank_string (Some (JString s)) = (\<exists>c \<in> set s. \<not> js_whitespace c)"
| "nonblank_string v = False"

fun number_between :: "jsnum \<Rightarrow> jsnum \<Rightarrow> jsvalue option \<Rightarrow> bool" where
  "number_between lo hi (Some (JNumber n)) = (num_le lo n \<and> num_le n hi)"
| "number_between lo hi v = False"

definition nonnegative_number :: "jsvalue option \<Rightarrow> bool" where
  "nonnegative_number v = number_between (Fin 0) PosInf v"

definition optional_numeric_fields :: "string list" where
  "optional_numeric_fields =
     [''co2'', ''power_kw'', ''power_hp'', ''number_of_doors'', ''number_of_seats'']"

definition listed_rejection :: "int \<Rightarrow> jsvalue \<Rightarrow> bool" where
  "listed_rejection year_now candidate =
     (\<not> is_object candidate \<or>
      \<not> nonblank_string (field candidate ''make'') \<or>
      \<not> nonblank_string (field candidate ''model'') \<or>
      \<not> number_between (Fin 1900) (Fin (of_int (year_now + 1))) (field candidate ''year'') \<or>
      \<not> nonnegative_number (field candidate ''mileage'') \<or>
      \<not> nonnegative_number (field candidate ''price'') \<or>
      (\<exists>k \<in> set optional_numeric_fields.
         field candidate k \<noteq> None \<and> \<not> nonnegative_number (field candidate k)))"

text \<open>
  A \<open>fuel_type\<close> on which \<^verbatim>\<open>toLowerCase\<close> cannot be called: present, truthy and not a
  string.
\<close>

definition fuel_type_not_text :: "jsvalue \<Rightarrow> bool" where
  "fuel_type_not_text candidate =
     (case field candidate ''fuel_type'' of
        None \<Rightarrow> False
      | Some v \<Rightarrow> truthy v \<and> typeof v \<noteq> TString)"

text \<open>A string that is empty or holds whitespace only.\<close>

definition blank :: "string \<Rightarrow> bool" where
  "blank s = (\<forall>c \<in> set s. js_whitespace c)"

section \<open>Sample inputs\<close>

text \<open>\<^verbatim>\<open>JSON.parse\<close> on the texts of the samples below; any other text is taken as malformed.\<close>

definition sample_JSON_parse :: json_parser where
  \<open>sample_JSON_parse text =
     (if text = ''null'' then Inr JNull
      else if text = ''5'' then Inr (JNumber (Fin 5))
      else if text = ''[5]'' then Inr (JArray [JNumber (Fin 5)])
      else if text = ''{}'' then Inr (JObject [])
      else if text = ''{"listings":5}'' then Inr (JObject [(''listings'', JNumber (Fin 5))])
      else if text = ''{"listings":[{}]}'' then Inr (JObject [(''listings'', JArray [JObject []])])
      else if text = ''{"listings":[{"make":"","model":"X","year":2020,"mileage":0,"price":0}]}''
        then Inr (JObject [(''listings'', JArray
               [JObject [(''make'', JString []), (''model'', JString ''X''),
                         (''year'', JNumber (Fin 2020)), (''mileage'', JNumber (Fin 0)),
                         (''price'', JNumber (Fin 0))]])])
      else Inl ''Unexpected token'')\<close>

text \<open>A listing with the five required fields, and the same with one more field.\<close>

definition corolla :: "rat \<Rightarrow> (string \<times> jsvalue) list" where
  "corolla year =
     [(''make'', JString ''Toyota''), (''model'', JString ''Corolla''),
      (''year'', JNumber (Fin year)), (''mileage'', JNumber (Fin 40000)),
      (''price'', JNumber (Fin 12000))]"

definition corolla_with :: "string \<Rightarrow> jsvalue \<Rightarrow> jsvalue" where
  "corolla_with k v = JObject (corolla 2019 @ [(k, v)])"

text \<open>
  A world in the year 2026 whose settings store holds the given provider tag and the same
  text under every other name, and whose providers all answer with the given text.
\<close>

definition sample_env :: "string \<Rightarrow> string \<Rightarrow> env" where
  "sample_env tag answer =
     \<lparr>rpc = (\<lambda>name. \<lparr>rpc_data = Some (if name = ''get_ai_provider'' then tag else ''stored''),
                      rpc_error = None\<rparr>),
      JSON_parse = sample_JSON_parse,
      String_of = (\<lambda>v. ''[object Object]''),
      generateContent = (\<lambda>key prompt raw. Inr answer),
      fetch = (\<lambda>request. Inr \<lparr>ok = True,
                 json = Inr (JObject [(''choices'',
                   JArray [JObject [(''message'', JObject [(''content'', JString answer)])]])])\<rparr>),
      getFullYear = 2026,
      location_origin = ''https://bananadb.example''\<rparr>"

section \<open>Lemmas on strings and numbers\<close>

lemma dropWhile_all_Nil:
  assumes "\<forall>c \<in> set (dropWhile P s). P c"
  shows "dropWhile P s = []"
proof (cases "dropWhile P s")
  case Nil
  then show ?thesis .
next
  case (Cons c cs)
  then have "\<not> P c"
    using hd_dropWhile [of P s] by simp
  moreover from Cons assms have "P c" by simp
  ultimately show ?thesis by simp
qed

lemma trim_empty_iff: "trim s = [] \<longleftrightarrow> blank s"
proof
  assume "trim s = []"
  then have "dropWhile js_whitespace (rev (dropWhile js_whitespace s)) = []"
    by (simp add: trim_def)
  then have "\<forall>c \<in> set (dropWhile js_whitespace s). js_whitespace c"
    by (auto simp: dropWhile_eq_Nil_conv dest: set_dropWhileD)
  then have "dropWhile js_whitespace s = []"
    by (rule dropWhile_all_Nil)
  then show "blank s"
    by (simp add: dropWhile_eq_Nil_conv blank_def)
next
  assume "blank s"
  then have d: "dropWhile js_whitespace s = []"
    by (simp add: dropWhile_eq_Nil_conv blank_def)
  show "trim s = []"
    unfolding trim_def d by simp
qed

lemma num_le_PosInf: "num_le n PosInf"
  by (cases n) simp_all

lemma toLowerCase_GaS: "toLowerCase ''GaS'' = ''gas''"
  by (simp add: toLowerCase_def toLowerCase_unit_def char_of_eq_iff)

lemma toLowerCase_Rocket: "toLowerCase ''Rocket'' = ''rocket''"
  by (simp add: toLowerCase_def toLowerCase_unit_def char_of_eq_iff)

section \<open>Properties of the normalizer\<close>

lemma isArray_Some_iff: "isArray v = Some xs \<longleftrightarrow> v = Some (JArray xs)"
  by (cases v rule: isArray.cases) auto

text \<open>The part of C2 that the code keeps: a scalar gets the invalid-format error.\<close>

lemma parseAIResponse_scalar:
  assumes "json_parse text = Inr v" and "is_scalar v"
  shows "parseAIResponse json_parse text = Inl invalid_response_format"
  using assms
  by (cases v) (simp_all add: parseAIResponse_def parseAIResponse_try_def invalid_response_format_def)

text \<open>On \<^verbatim>\<open>null\<close> the read of \<^verbatim>\<open>parsed.listings\<close> raises before any shape is tested.\<close>

lemma parseAIResponse_JNull:
  assumes "json_parse text = Inr JNull"
  shows "parseAIResponse json_parse text
           = Inl (Error (''Failed to parse AI response: '' @ null_property_message ''listings''))"
  using assms by (simp add: parseAIResponse_def parseAIResponse_try_def)

text \<open>
  C1. When the text parses as JSON, the normalizer dispatches on the shape of the parsed
  value in this order: an object with a field \<open>listings\<close> holding a list gives that list;
  otherwise a list gives itself; otherwise an object gives the one-element list holding it.
\<close>

theorem parseAIResponse_shape_dispatch:
  assumes "json_parse text = Inr parsed"
  shows "(\<forall>kvs xs. parsed = JObject kvs \<and> map_of kvs ''listings'' = Some (JArray xs) \<longrightarrow>
            parseAIResponse json_parse text = Inr xs)
       \<and> (\<forall>xs. parsed = JArray xs \<longrightarrow> parseAIResponse json_parse text = Inr xs)
       \<and> (\<forall>kvs. parsed = JObject kvs \<and> isArray (map_of kvs ''listings'') = None \<longrightarrow>
            parseAIResponse json_parse text = Inr [parsed]
            \<and> (\<forall>ys. parseAIResponse json_parse text = Inr ys \<longrightarrow> length ys = 1))"
proof (intro conjI allI impI)
  fix kvs xs
  assume "parsed = JObject kvs \<and> map_of kvs ''listings'' = Some (JArray xs)"
  with assms show "parseAIResponse json_parse text = Inr xs"
    by (simp add: parseAIResponse_def parseAIResponse_try_def)
next
  fix xs
  assume "parsed = JArray xs"
  with assms show "parseAIResponse json_parse text = Inr xs"
    by (simp add: parseAIResponse_def parseAIResponse_try_def)
next
  fix kvs
  assume h: "parsed = JObject kvs \<and> isArray (map_of kvs ''listings'') = None"
  with assms show r: "parseAIResponse json_parse text = Inr [parsed]"
    by (simp add: parseAIResponse_def parseAIResponse_try_def)
  fix ys
  assume "parseAIResponse json_parse text = Inr ys"
  with r show "length ys = 1" by simp
qed

text \<open>
  The three shapes on sample texts: a wrapped list, a bare list and a single object.
\<close>

theorem parseAIResponse_shape_dispatch_witness:
  \<open>parseAIResponse sample_JSON_parse ''{"listings":[{}]}'' = Inr [JObject []]
   \<and> parseAIResponse sample_JSON_parse ''[5]'' = Inr [JNumber (Fin 5)]
   \<and> parseAIResponse sample_JSON_parse ''{}'' = Inr [JObject []]\<close>
proof -
  have a: \<open>sample_JSON_parse ''{"listings":[{}]}'' = Inr (JObject [(''listings'', JArray [JObject []])])\<close>
    by (simp add: sample_JSON_parse_def)
  have b: "sample_JSON_parse ''[5]'' = Inr (JArray [JNumber (Fin 5)])"
    by (simp add: sample_JSON_parse_def)
  have c: "sample_JSON_parse ''{}'' = Inr (JObject [])"
    by (simp add: sample_JSON_parse_def)
  from parseAIResponse_shape_dispatch [where json_parse = sample_JSON_parse, OF a]
    parseAIResponse_shape_dispatch [where json_parse = sample_JSON_parse, OF b]
    parseAIResponse_shape_dispatch [where json_parse = sample_JSON_parse, OF c]
  show ?thesis by simp
qed

text \<open>
  C10. When the text parses to an object whose field \<open>listings\<close> is present and is not a
  list, the normalizer does not fail and does not return the value of \<open>listings\<close>: it
  returns the one-element list holding the whole object.
\<close>

theorem parseAIResponse_listings_not_list:
  assumes "json_parse text = Inr (JObject kvs)"
    and "map_of kvs ''listings'' = Some v"
    and "isArray (Some v) = None"
  shows "parseAIResponse json_parse text = Inr [JObject kvs]"
  using assms by (simp add: parseAIResponse_def parseAIResponse_try_def)

theorem parseAIResponse_listings_not_list_witness:
  \<open>parseAIResponse sample_JSON_parse ''{"listings":5}''
     = Inr [JObject [(''listings'', JNumber (Fin 5))]]\<close>
proof -
  have a: \<open>sample_JSON_parse ''{"listings":5}'' = Inr (JObject [(''listings'', JNumber (Fin 5))])\<close>
    by (simp add: sample_JSON_parse_def)
  have b: "map_of [(''listings'', JNumber (Fin 5))] ''listings'' = Some (JNumber (Fin 5))"
    by simp
  have c: "isArray (Some (JNumber (Fin 5))) = None"
    by simp
  from parseAIResponse_listings_not_list [where json_parse = sample_JSON_parse, OF a b c]
  show ?thesis .
qed

text \<open>
  C2. The claim is that a parsed scalar or \<^verbatim>\<open>null\<close> gets the invalid-format error. On the
  text \<^verbatim>\<open>null\<close> the normalizer fails, but with the \<^verbatim>\<open>TypeError\<close> of the property read,
  wrapped by its \<^verbatim>\<open>catch\<close>, and not with the invalid-format error.
\<close>

theorem parseAIResponse_null_not_invalid_format:
  "sample_JSON_parse ''null'' = Inr JNull
   \<and> parseAIResponse sample_JSON_parse ''null''
       = Inl (Error (''Failed to parse AI response: Cannot read properties of null (reading ''
                     @ [CHR 0x27] @ ''listings'' @ [CHR 0x27] @ '')''))
   \<and> parseAIResponse sample_JSON_parse ''null'' \<noteq> Inl invalid_response_format"
proof -
  have a: "sample_JSON_parse ''null'' = Inr JNull"
    by (simp add: sample_JSON_parse_def)
  from a parseAIResponse_JNull [where json_parse = sample_JSON_parse, OF a] show ?thesis
    by (simp add: null_property_message_def invalid_response_format_def)
qed

section \<open>Properties of the validator\<close>

lemma blank_or_not_string_iff: "blank_or_not_string v \<longleftrightarrow> \<not> nonblank_string v"
  by (cases v rule: blank_or_not_string.cases) (auto simp: trim_empty_iff blank_def)

lemma num_less_iff_not_le: "num_less a b \<longleftrightarrow> \<not> num_le b a"
  by (cases a; cases b) auto

lemma negative_or_not_number_iff: "negative_or_not_number v \<longleftrightarrow> \<not> nonnegative_number v"
  by (cases v rule: negative_or_not_number.cases)
     (auto simp: nonnegative_number_def num_less_iff_not_le num_le_PosInf)

lemma year_out_of_range_iff:
  "year_out_of_range y v \<longleftrightarrow> \<not> number_between (Fin 1900) (Fin (of_int (y + 1))) v"
  by (cases v rule: negative_or_not_number.cases)
     (auto simp: num_less_iff_not_le)

lemma optional_invalid_iff:
  "optional_invalid v \<longleftrightarrow> v \<noteq> None \<and> \<not> nonnegative_number v"
  by (cases v) (simp_all add: negative_or_not_number_iff)

lemma required_fields_fail_iff:
  "required_fields_fail y l \<longleftrightarrow>
     \<not> nonblank_string (field l ''make'') \<or> \<not> nonblank_string (field l ''model'') \<or>
     \<not> number_between (Fin 1900) (Fin (of_int (y + 1))) (field l ''year'') \<or>
     \<not> nonnegative_number (field l ''mileage'') \<or> \<not> nonnegative_number (field l ''price'')"
  by (simp add: required_fields_fail_def blank_or_not_string_iff negative_or_not_number_iff
      year_out_of_range_iff)

lemma truthy_typeof_object_iff: "truthy l \<and> typeof l = TObject \<longleftrightarrow> is_object l"
  by (cases l rule: is_object.cases) simp_all


lemma optional_fields_iff:
  "(\<exists>k \<in> set optional_numeric_fields. field l k \<noteq> None \<and> \<not> nonnegative_number (field l k)) \<longleftrightarrow>
     optional_invalid (field l ''co2'') \<or> optional_invalid (field l ''power_kw'') \<or>
     optional_invalid (field l ''power_hp'') \<or> optional_invalid (field l ''number_of_doors'') \<or>
     optional_invalid (field l ''number_of_seats'')"
  unfolding optional_numeric_fields_def optional_invalid_iff by simp

lemma validateListing_try_checks:
  "validateListing_try y l =
     (if listed_rejection y l then Inr (False, l) else normalize_fuel_type l)"
proof -
  have o: "\<not> truthy l \<or> typeof l \<noteq> TObject \<longleftrightarrow> \<not> is_object l"
    using truthy_typeof_object_iff [of l] by blast
  show ?thesis
    unfolding validateListing_try_def listed_rejection_def optional_fields_iff o
      required_fields_fail_iff
    by simp
qed

lemma typeof_TString_iff: "typeof v = TString \<longleftrightarrow> (\<exists>s. v = JString s)"
  by (cases v rule: typeof.cases) simp_all

lemma normalize_fuel_type_raises_iff:
  "(\<exists>msg. normalize_fuel_type l = Inl msg) \<longleftrightarrow> fuel_type_not_text l"
proof (cases "field l ''fuel_type''")
  case None
  then show ?thesis by (simp add: normalize_fuel_type_def fuel_type_not_text_def)
next
  case (Some v)
  then show ?thesis
    by (cases v)
       (auto simp: normalize_fuel_type_def fuel_type_not_text_def typeof_TString_iff
          split: option.splits)
qed

lemma normalize_fuel_type_verdict:
  "normalize_fuel_type l = Inr (b, l') \<Longrightarrow> b"
  by (auto simp: normalize_fuel_type_def split: option.splits if_splits jsvalue.splits)

lemma map_of_assign: "map_of (assign k v kvs) = (map_of kvs)(k \<mapsto> v)"
  by (induction kvs) (auto simp: fun_eq_iff)

lemma map_of_remove: "map_of (remove k kvs) = (map_of kvs)(k := None)"
  by (induction kvs) (auto simp: remove_def fun_eq_iff)

lemma field_Some_object: "field l k = Some v \<Longrightarrow> \<exists>kvs. l = JObject kvs"
  by (cases l) simp_all

lemma field_set_field:
  "field l f = Some v \<Longrightarrow> field (set_field l f x) k = (if k = f then Some x else field l k)"
  by (auto dest!: field_Some_object simp: map_of_assign)

lemma field_delete_field:
  "field l f = Some v \<Longrightarrow> field (delete_field l f) k = (if k = f then None else field l k)"
  by (auto dest!: field_Some_object simp: map_of_remove)

lemma map_of_fuelTypeMap_truthy:
  "fuelTypeMap_lookup k = Some n \<Longrightarrow> truthy n"
  by (auto simp: fuelTypeMap_lookup_def fuelTypeMap_def split: option.splits if_splits)

lemma normalize_fuel_type_hit:
  assumes "field l ''fuel_type'' = Some (JString s)" and "s \<noteq> []"
    and "map_of fuelTypeMap (toLowerCase s) = Some c"
  shows "normalize_fuel_type l = Inr (True, set_field l ''fuel_type'' (JString c))"
proof -
  from assms(3) have k: "fuelTypeMap_lookup (toLowerCase s) = Some (JString c)"
    by (simp add: fuelTypeMap_lookup_def)
  then have "truthy (JString c)" by (rule map_of_fuelTypeMap_truthy)
  with assms(1,2) k show ?thesis
    by (simp add: normalize_fuel_type_def)
qed

lemma normalize_fuel_type_miss:
  assumes "field l ''fuel_type'' = Some (JString s)" and "s \<noteq> []"
    and "map_of fuelTypeMap (toLowerCase s) = None"
    and "toLowerCase s \<noteq> ''constructor''" and "toLowerCase s \<noteq> ''__proto__''"
  shows "normalize_fuel_type l = Inr (True, delete_field l ''fuel_type'')"
proof -
  from assms(3,4,5) have "fuelTypeMap_lookup (toLowerCase s) = None"
    by (simp add: fuelTypeMap_lookup_def)
  with assms(1,2) show ?thesis
    by (simp add: normalize_fuel_type_def)
qed

lemma normalize_fuel_type_falsy:
  assumes "field l ''fuel_type'' = Some v" and "\<not> truthy v"
  shows "normalize_fuel_type l = Inr (True, l)"
  using assms by (simp add: normalize_fuel_type_def)

lemma normalize_fuel_type_not_text:
  assumes "fuel_type_not_text l"
  shows "normalize_fuel_type l = Inl (not_a_function_message ''listing.fuel_type.toLowerCase'')"
proof -
  from assms obtain v where v: "field l ''fuel_type'' = Some v" "truthy v" "typeof v \<noteq> TString"
    by (auto simp: fuel_type_not_text_def split: option.splits)
  then show ?thesis
    by (cases v) (simp_all add: normalize_fuel_type_def)
qed

lemmas sample_simps =
  corolla_with_def corolla_def listed_rejection_def fuel_type_not_text_def
  nonnegative_number_def optional_numeric_fields_def js_whitespace_def

text \<open>
  The bounds on \<open>year\<close>, whatever the current year: a listing that is otherwise in order
  is accepted exactly when its year is in \<open>[1900, current year + 1]\<close>.
\<close>

lemma validateListing_year_bounds:
  "fst (validateListing y (JObject (corolla n))) \<longleftrightarrow> 1900 \<le> n \<and> n \<le> of_int y + 1"
proof -
  have r: "listed_rejection y (JObject (corolla n)) \<longleftrightarrow> \<not> (1900 \<le> n \<and> n \<le> of_int y + 1)"
    by (simp add: sample_simps)
  have f: "normalize_fuel_type (JObject (corolla n)) = Inr (True, JObject (corolla n))"
    by (simp add: normalize_fuel_type_def sample_simps)
  from r f show ?thesis
    by (simp add: validateListing_def validateListing_try_checks)
qed

text \<open>
  C3, as stated, fails: a listing whose listed fields are all in order and whose
  \<open>fuel_type\<close> is the number 5 is rejected, for a reason the claim does not list.
\<close>

theorem validateListing_rejects_unlisted:
  "\<not> fst (validateListing 2026 (corolla_with ''fuel_type'' (JNumber (Fin 5))))
   \<and> \<not> listed_rejection 2026 (corolla_with ''fuel_type'' (JNumber (Fin 5)))"
proof -
  have a: "\<not> listed_rejection 2026 (corolla_with ''fuel_type'' (JNumber (Fin 5)))"
    by (simp add: sample_simps)
  have b: "fuel_type_not_text (corolla_with ''fuel_type'' (JNumber (Fin 5)))"
    by (simp add: sample_simps)
  from a b show ?thesis
    by (simp add: validateListing_def validateListing_try_checks normalize_fuel_type_not_text)
qed

text \<open>
  C3, amended. The validator returns false exactly when one of the listed reasons holds
  (the candidate is not an object; \<open>make\<close> or \<open>model\<close> is not a string that is non-empty
  after trimming; \<open>year\<close> is not a number in \<open>[1900, current year + 1]\<close>; \<open>mileage\<close> or
  \<open>price\<close> is not a number \<open>\<ge> 0\<close>; a present optional numeric field is not a number
  \<open>\<ge> 0\<close>), or when \<open>fuel_type\<close> is present, truthy and not a string.
\<close>

theorem validateListing_rejects_iff:
  "\<not> fst (validateListing y l) \<longleftrightarrow> listed_rejection y l \<or> fuel_type_not_text l"
proof (cases "listed_rejection y l")
  case True
  then show ?thesis by (simp add: validateListing_def validateListing_try_checks)
next
  case False
  show ?thesis
  proof (cases "normalize_fuel_type l")
    case (Inl msg)
    then have "fuel_type_not_text l"
      using normalize_fuel_type_raises_iff [of l] by blast
    with False Inl show ?thesis
      by (simp add: validateListing_def validateListing_try_checks)
  next
    case (Inr r)
    then have n: "\<not> fuel_type_not_text l"
      using normalize_fuel_type_raises_iff [of l] by auto
    obtain b l' where r: "r = (b, l')" by (cases r)
    with Inr have b by (auto dest: normalize_fuel_type_verdict)
    with False Inr r n show ?thesis
      by (simp add: validateListing_def validateListing_try_checks)
  qed
qed

text \<open>
  In 2026: the years 1899 and 2028 are rejected, 1900 and 2027 accepted; a \<^verbatim>\<open>null\<close>
  \<open>co2\<close> and an object as \<open>fuel_type\<close> are rejected.
\<close>

theorem validateListing_rejects_iff_witness:
  "\<not> fst (validateListing 2026 (JObject (corolla 1899)))
   \<and> fst (validateListing 2026 (JObject (corolla 1900)))
   \<and> fst (validateListing 2026 (JObject (corolla 2027)))
   \<and> \<not> fst (validateListing 2026 (JObject (corolla 2028)))
   \<and> \<not> fst (validateListing 2026 (corolla_with ''co2'' JNull))
   \<and> \<not> fst (validateListing 2026 (corolla_with ''fuel_type'' (JObject [])))"
  using validateListing_rejects_iff [of 2026 "JObject (corolla 1899)"]
    validateListing_rejects_iff [of 2026 "JObject (corolla 1900)"]
    validateListing_rejects_iff [of 2026 "JObject (corolla 2027)"]
    validateListing_rejects_iff [of 2026 "JObject (corolla 2028)"]
    validateListing_rejects_iff [of 2026 "corolla_with ''co2'' JNull"]
    validateListing_rejects_iff [of 2026 "corolla_with ''fuel_type'' (JObject [])"]
  by (simp add: sample_simps)

text \<open>
  An inherited name: the table is an object literal, so the key \<open>constructor\<close> finds the
  function \<^verbatim>\<open>Object\<close> that the table inherits, and the validator stores it in the
  listing.
\<close>

lemma validateListing_fuel_type_inherited:
  "validateListing 2026 (corolla_with ''fuel_type'' (JString ''constructor''))
     = (True, corolla_with ''fuel_type'' (JHost ObjectConstructor))"
proof -
  have a: "\<not> listed_rejection 2026 (corolla_with ''fuel_type'' (JString ''constructor''))"
    by (simp add: sample_simps)
  have l: "toLowerCase ''constructor'' = ''constructor''"
    by (simp add: toLowerCase_def toLowerCase_unit_def)
  have k: "fuelTypeMap_lookup ''constructor'' = Some (JHost ObjectConstructor)"
    by (simp add: fuelTypeMap_lookup_def fuelTypeMap_def)
  have n: "normalize_fuel_type (corolla_with ''fuel_type'' (JString ''constructor''))
             = Inr (True, corolla_with ''fuel_type'' (JHost ObjectConstructor))"
    by (simp add: normalize_fuel_type_def l k sample_simps)
  from a n show ?thesis
    by (simp add: validateListing_def validateListing_try_checks)
qed

text \<open>
  C4, as stated, fails: an empty \<open>fuel_type\<close> is present and not in the table, and the
  validator leaves it in place; a \<open>fuel_type\<close> that is \<^verbatim>\<open>true\<close> makes the validator
  return false although every other field is in order; and with the five required
  fields in order and a negative \<open>co2\<close>, the validator returns false and leaves the
  \<open>fuel_type\<close> \<open>gas\<close> as it is.
\<close>

theorem validateListing_fuel_type_kept_or_rejected:
  "\<not> listed_rejection 2026 (corolla_with ''fuel_type'' (JString []))
   \<and> map_of fuelTypeMap (toLowerCase []) = None
   \<and> fst (validateListing 2026 (corolla_with ''fuel_type'' (JString [])))
   \<and> field (snd (validateListing 2026 (corolla_with ''fuel_type'' (JString [])))) ''fuel_type''
       = Some (JString [])
   \<and> \<not> listed_rejection 2026 (corolla_with ''fuel_type'' (JBool True))
   \<and> \<not> fst (validateListing 2026 (corolla_with ''fuel_type'' (JBool True)))
   \<and> \<not> required_fields_fail 2026
         (JObject (corolla 2019 @ [(''co2'', JNumber (Fin (- 1))), (''fuel_type'', JString ''gas'')]))
   \<and> validateListing 2026
         (JObject (corolla 2019 @ [(''co2'', JNumber (Fin (- 1))), (''fuel_type'', JString ''gas'')]))
       = (False,
          JObject (corolla 2019 @ [(''co2'', JNumber (Fin (- 1))), (''fuel_type'', JString ''gas'')]))"
proof -
  have a: "\<not> listed_rejection 2026 (corolla_with ''fuel_type'' (JString []))"
    by (simp add: sample_simps)
  have f: "field (corolla_with ''fuel_type'' (JString [])) ''fuel_type'' = Some (JString [])"
    by (simp add: sample_simps)
  have v: "validateListing 2026 (corolla_with ''fuel_type'' (JString []))
             = (True, corolla_with ''fuel_type'' (JString []))"
    using a f by (simp add: validateListing_def validateListing_try_checks normalize_fuel_type_falsy)
  have m: "map_of fuelTypeMap (toLowerCase []) = None"
    by (simp add: fuelTypeMap_def toLowerCase_def)
  have b: "\<not> listed_rejection 2026 (corolla_with ''fuel_type'' (JBool True))"
    by (simp add: sample_simps)
  have t: "fuel_type_not_text (corolla_with ''fuel_type'' (JBool True))"
    by (simp add: sample_simps)
  have w: "\<not> fst (validateListing 2026 (corolla_with ''fuel_type'' (JBool True)))"
    using b t by (simp add: validateListing_def validateListing_try_checks normalize_fuel_type_not_text)
  let ?c = "JObject (corolla 2019 @ [(''co2'', JNumber (Fin (- 1))), (''fuel_type'', JString ''gas'')])"
  have q: "\<not> required_fields_fail 2026 ?c"
    by (simp add: required_fields_fail_iff sample_simps)
  have r: "listed_rejection 2026 ?c"
    by (simp add: sample_simps)
  have x: "validateListing 2026 ?c = (False, ?c)"
    using r by (simp add: validateListing_def validateListing_try_checks)
  from a f v m b w q x show ?thesis by simp
qed

text \<open>
  C4, amended. For a candidate with no listed reason for rejection and a \<open>fuel_type\<close>
  field: when it is a non-empty string whose lower-cased form is in the synonym table,
  the validator overwrites it with the canonical value and returns true; when it is a
  non-empty string whose lower-cased form is not in the table (and is not one of the two
  names the table inherits), the validator removes the field and returns true; when it
  is falsy (\<^verbatim>\<open>null\<close>, \<^verbatim>\<open>false\<close>, \<open>0\<close>, the empty string), the validator leaves the
  candidate as it is and returns true; when it is truthy and not a string, the validator
  returns false.
\<close>

theorem validateListing_fuel_type:
  assumes "\<not> listed_rejection y l" and "field l ''fuel_type'' = Some v"
  shows "(\<forall>s c. v = JString s \<and> s \<noteq> [] \<and> map_of fuelTypeMap (toLowerCase s) = Some c \<longrightarrow>
            validateListing y l = (True, set_field l ''fuel_type'' (JString c))
            \<and> field (set_field l ''fuel_type'' (JString c)) ''fuel_type'' = Some (JString c))
       \<and> (\<forall>s. v = JString s \<and> s \<noteq> [] \<and> map_of fuelTypeMap (toLowerCase s) = None
              \<and> toLowerCase s \<noteq> ''constructor'' \<and> toLowerCase s \<noteq> ''__proto__'' \<longrightarrow>
            validateListing y l = (True, delete_field l ''fuel_type'')
            \<and> field (delete_field l ''fuel_type'') ''fuel_type'' = None)
       \<and> (\<not> truthy v \<longrightarrow> validateListing y l = (True, l))
       \<and> (truthy v \<and> typeof v \<noteq> TString \<longrightarrow> validateListing y l = (False, l))"
proof (intro conjI allI impI)
  fix s c
  assume h: "v = JString s \<and> s \<noteq> [] \<and> map_of fuelTypeMap (toLowerCase s) = Some c"
  with assms show "validateListing y l = (True, set_field l ''fuel_type'' (JString c))"
    by (simp add: validateListing_def validateListing_try_checks normalize_fuel_type_hit)
  from assms(2) show "field (set_field l ''fuel_type'' (JString c)) ''fuel_type'' = Some (JString c)"
    by (simp add: field_set_field)
next
  fix s
  assume h: "v = JString s \<and> s \<noteq> [] \<and> map_of fuelTypeMap (toLowerCase s) = None
              \<and> toLowerCase s \<noteq> ''constructor'' \<and> toLowerCase s \<noteq> ''__proto__''"
  with assms show "validateListing y l = (True, delete_field l ''fuel_type'')"
    by (simp add: validateListing_def validateListing_try_checks normalize_fuel_type_miss)
  from assms(2) show "field (delete_field l ''fuel_type'') ''fuel_type'' = None"
    by (simp add: field_delete_field)
next
  assume "\<not> truthy v"
  with assms show "validateListing y l = (True, l)"
    by (simp add: validateListing_def validateListing_try_checks normalize_fuel_type_falsy)
next
  assume "truthy v \<and> typeof v \<noteq> TString"
  with assms(2) have "fuel_type_not_text l"
    by (simp add: fuel_type_not_text_def)
  with assms(1) show "validateListing y l = (False, l)"
    by (simp add: validateListing_def validateListing_try_checks normalize_fuel_type_not_text)
qed

theorem validateListing_fuel_type_witness:
  "validateListing 2026 (corolla_with ''fuel_type'' (JString ''GaS''))
     = (True, corolla_with ''fuel_type'' (JString ''Petrol''))
   \<and> validateListing 2026 (corolla_with ''fuel_type'' (JString ''Rocket''))
     = (True, JObject (corolla 2019))
   \<and> validateListing 2026 (corolla_with ''fuel_type'' (JNumber (Fin 0)))
     = (True, corolla_with ''fuel_type'' (JNumber (Fin 0)))
   \<and> validateListing 2026 (corolla_with ''fuel_type'' (JNumber (Fin 7)))
     = (False, corolla_with ''fuel_type'' (JNumber (Fin 7)))"
proof -
  have a: "\<not> listed_rejection 2026 (corolla_with ''fuel_type'' v)" for v
    by (simp add: sample_simps)
  have f: "field (corolla_with ''fuel_type'' v) ''fuel_type'' = Some v" for v
    by (simp add: sample_simps)
  have g: "map_of fuelTypeMap ''gas'' = Some ''Petrol''"
    by (simp add: fuelTypeMap_def)
  have r: "map_of fuelTypeMap ''rocket'' = None"
    by (simp add: fuelTypeMap_def)
  have s: "set_field (corolla_with ''fuel_type'' v) ''fuel_type'' w = corolla_with ''fuel_type'' w" for v w
    by (simp add: sample_simps)
  have d: "delete_field (corolla_with ''fuel_type'' v) ''fuel_type'' = JObject (corolla 2019)" for v
    by (simp add: sample_simps remove_def)
  show ?thesis
    using validateListing_fuel_type [OF a [of "JString ''GaS''"] f]
      validateListing_fuel_type [OF a [of "JString ''Rocket''"] f]
      validateListing_fuel_type [OF a [of "JNumber (Fin 0)"] f]
      validateListing_fuel_type [OF a [of "JNumber (Fin 7)"] f]
    by (simp add: toLowerCase_GaS toLowerCase_Rocket g r s d)
qed

text \<open>
  C9. Whatever the candidate, an error raised inside the validator is caught there and
  the verdict is false, the candidate being left as it was. The body raises exactly
  for a candidate with no listed reason for rejection whose \<open>fuel_type\<close> is truthy and not
  a string; every candidate with such a \<open>fuel_type\<close> gets the verdict false.
\<close>

theorem validateListing_catches:
  "(\<forall>msg. validateListing_try y l = Inl msg \<longrightarrow> validateListing y l = (False, l))
   \<and> ((\<exists>msg. validateListing_try y l = Inl msg) \<longleftrightarrow> \<not> listed_rejection y l \<and> fuel_type_not_text l)
   \<and> (fuel_type_not_text l \<longrightarrow> validateListing y l = (False, l))"
proof (intro conjI allI impI)
  fix msg
  assume "validateListing_try y l = Inl msg"
  then show "validateListing y l = (False, l)"
    by (simp add: validateListing_def)
next
  show "(\<exists>msg. validateListing_try y l = Inl msg) \<longleftrightarrow> \<not> listed_rejection y l \<and> fuel_type_not_text l"
    using normalize_fuel_type_raises_iff [of l]
    by (simp add: validateListing_try_checks)
next
  assume "fuel_type_not_text l"
  then show "validateListing y l = (False, l)"
    by (simp add: validateListing_def validateListing_try_checks normalize_fuel_type_not_text)
qed

theorem validateListing_catches_witness:
  "validateListing_try 2026 (corolla_with ''fuel_type'' (JArray []))
     = Inl ''listing.fuel_type.toLowerCase is not a function''
   \<and> validateListing 2026 (corolla_with ''fuel_type'' (JArray []))
     = (False, corolla_with ''fuel_type'' (JArray []))"
proof -
  have a: "\<not> listed_rejection 2026 (corolla_with ''fuel_type'' (JArray []))"
    by (simp add: sample_simps)
  have t: "fuel_type_not_text (corolla_with ''fuel_type'' (JArray []))"
    by (simp add: sample_simps)
  have r: "validateListing_try 2026 (corolla_with ''fuel_type'' (JArray []))
     = Inl ''listing.fuel_type.toLowerCase is not a function''"
    using a t
    by (simp add: validateListing_try_checks normalize_fuel_type_not_text not_a_function_message_def)
  from validateListing_catches [of 2026 "corolla_with ''fuel_type'' (JArray [])"] r
  show ?thesis by simp
qed

section \<open>Properties of the orchestration\<close>

text \<open>
  C5. On an input that is empty or holds whitespace only, \<^verbatim>\<open>parseCarListing\<close> fails with
  the no-data error and has issued no call: neither to the settings store nor to a
  provider.
\<close>

theorem parseCarListing_blank:
  assumes "blank rawData"
  shows "parseCarListing env rawData = (Inl (Error ''No data provided''), [])"
  using assms by (simp add: parseCarListing_def trim_empty_iff)

theorem parseCarListing_blank_witness:
  "blank [CHR '' '', CHR 0x09, CHR 0x0A] \<and>
   parseCarListing (sample_env ''gemini'' ''[5]'') [CHR '' '', CHR 0x09, CHR 0x0A]
     = (Inl (Error ''No data provided''), [])
   \<and> parseCarListing (sample_env ''gemini'' ''[5]'') [] = (Inl (Error ''No data provided''), [])"
proof -
  have b: "blank [CHR '' '', CHR 0x09, CHR 0x0A]"
    by (simp add: blank_def js_whitespace_def)
  have e: "blank []"
    by (simp add: blank_def)
  from b parseCarListing_blank [OF b] parseCarListing_blank [OF e] show ?thesis by simp
qed

lemma key_missing_iff:
  "key_missing apiKey \<longleftrightarrow> (case apiKey of None \<Rightarrow> True | Some k \<Rightarrow> blank k)"
  by (cases apiKey) (simp_all add: trim_empty_iff)

text \<open>
  C7. Each of the three adapters, given a key that is \<^verbatim>\<open>null\<close>, \<^verbatim>\<open>undefined\<close> or blank,
  fails with the error naming its provider and has issued no call.
\<close>

theorem adapters_require_key:
  assumes "case apiKey of None \<Rightarrow> True | Some k \<Rightarrow> blank k"
  shows "parseWithGemini env prompt rawData apiKey
           = (Inl (Error ''Gemini API key is required''), [])
       \<and> parseWithDeepseek env prompt rawData apiKey
           = (Inl (Error ''Deepseek API key is required''), [])
       \<and> parseWithOpenRouter env prompt rawData apiKey siteUrl siteName
           = (Inl (Error ''OpenRouter API key is required''), [])"
proof -
  from assms have "key_missing apiKey" by (simp add: key_missing_iff)
  then show ?thesis
    by (simp add: parseWithGemini_def parseWithDeepseek_def parseWithOpenRouter_def)
qed

theorem adapters_require_key_witness:
  "parseWithGemini (sample_env ''gemini'' ''[5]'') ''prompt'' ''raw'' (Some ''  '')
           = (Inl (Error ''Gemini API key is required''), [])
       \<and> parseWithDeepseek (sample_env ''gemini'' ''[5]'') ''prompt'' ''raw'' None
           = (Inl (Error ''Deepseek API key is required''), [])
       \<and> parseWithOpenRouter (sample_env ''gemini'' ''[5]'') ''prompt'' ''raw'' (Some []) ''url'' ''name''
           = (Inl (Error ''OpenRouter API key is required''), [])"
proof -
  have a: "case Some ''  '' of None \<Rightarrow> True | Some k \<Rightarrow> blank k"
    by (simp add: blank_def js_whitespace_def)
  have b: "case (None :: string option) of None \<Rightarrow> True | Some k \<Rightarrow> blank k"
    by simp
  have c: "case Some [] of None \<Rightarrow> True | Some k \<Rightarrow> blank k"
    by (simp add: blank_def)
  from adapters_require_key [OF a] adapters_require_key [OF b] adapters_require_key [OF c] show ?thesis by blast
qed

text \<open>
  C6. When the settings load, the selected adapter returns candidates and none of them
  passes the validator, \<^verbatim>\<open>parseCarListing\<close> fails with the no-valid-listings error; and
  it never returns the empty list.
\<close>

theorem parseCarListing_no_valid_listings:
  "(trim rawData \<noteq> [] \<and> getSettings env = (Inr settings, loaded)
      \<and> call_provider env settings rawData = (Inr candidates, called)
      \<and> filter_validateListing (getFullYear env) candidates = [] \<longrightarrow>
     parseCarListing env rawData
       = (Inl (Error ''No valid listings found in the response''), loaded @ called))
   \<and> fst (parseCarListing env rawData) \<noteq> Inr []"
proof
  show "trim rawData \<noteq> [] \<and> getSettings env = (Inr settings, loaded)
      \<and> call_provider env settings rawData = (Inr candidates, called)
      \<and> filter_validateListing (getFullYear env) candidates = [] \<longrightarrow>
     parseCarListing env rawData
       = (Inl (Error ''No valid listings found in the response''), loaded @ called)"
    by (simp add: parseCarListing_def)
  show "fst (parseCarListing env rawData) \<noteq> Inr []"
    by (simp add: parseCarListing_def Let_def split: prod.splits sum.splits)
qed

text \<open>The provider answers with one listing whose \<open>make\<close> is empty.\<close>

theorem parseCarListing_no_valid_listings_witness:
  \<open>parseCarListing
     (sample_env ''gemini''
        ''{"listings":[{"make":"","model":"X","year":2020,"mileage":0,"price":0}]}'')
     ''2019 Toyota Corolla''
   = (Inl (Error ''No valid listings found in the response''),
      [RpcCall ''get_ai_provider'', RpcCall ''get_gemini_apikey'', RpcCall ''get_gemini_prompt'',
       GeminiCall ''stored'' ''stored'' ''2019 Toyota Corolla''])\<close>
proof -
  let ?answer = \<open>''{"listings":[{"make":"","model":"X","year":2020,"mileage":0,"price":0}]}''\<close>
  let ?env = "sample_env ''gemini'' ?answer"
  let ?candidate = "JObject [(''make'', JString []), (''model'', JString ''X''),
                         (''year'', JNumber (Fin 2020)), (''mileage'', JNumber (Fin 0)),
                         (''price'', JNumber (Fin 0))]"
  have t: "trim ''2019 Toyota Corolla'' \<noteq> []"
    by (simp add: trim_empty_iff blank_def js_whitespace_def)
  have s: "getSettings ?env = (Inr (GeminiSettings ''stored'' ''stored''),
      [RpcCall ''get_ai_provider'', RpcCall ''get_gemini_apikey'', RpcCall ''get_gemini_prompt''])"
    by (simp add: getSettings_def sample_env_def Let_def)
  have k: "\<not> key_missing (Some ''stored'')"
    by (simp add: trim_empty_iff blank_def js_whitespace_def)
  have k': "trimmed_key (Some ''stored'') = ''stored''"
    by (simp add: trim_def js_whitespace_def)
  have p: "parseAIResponse sample_JSON_parse ?answer = Inr [?candidate]"
    by (simp add: parseAIResponse_def parseAIResponse_try_def sample_JSON_parse_def)
  have g: "generateContent ?env = (\<lambda>key prompt raw. Inr ?answer)"
    and j: "JSON_parse ?env = sample_JSON_parse"
    and y: "getFullYear ?env = 2026"
    by (simp_all add: sample_env_def)
  have c: "call_provider ?env (GeminiSettings ''stored'' ''stored'') ''2019 Toyota Corolla''
             = (Inr [?candidate], [GeminiCall ''stored'' ''stored'' ''2019 Toyota Corolla''])"
    unfolding call_provider.simps parseWithGemini_def Let_def g j k' using k p by simp
  have r: "listed_rejection 2026 ?candidate"
    by (simp add: listed_rejection_def)
  have f: "filter_validateListing (getFullYear ?env) [?candidate] = []"
    unfolding y using r by (simp add: validateListing_def validateListing_try_checks)
  from parseCarListing_no_valid_listings
    [of "''2019 Toyota Corolla''" ?env "GeminiSettings ''stored'' ''stored''" _ "[?candidate]" _]
    t s c f
  show ?thesis by simp
qed

text \<open>
  C8, as stated, fails: the empty tag is none of the three recognized values, and the
  accessor reads it as \<open>gemini\<close> and returns a bundle.
\<close>

theorem getSettings_empty_tag_is_gemini:
  "rpc_error (rpc (sample_env [] ''[5]'') ''get_ai_provider'') = None
   \<and> rpc_data (rpc (sample_env [] ''[5]'') ''get_ai_provider'') = Some []
   \<and> [] \<notin> {''gemini'', ''deepseek'', ''openrouter''}
   \<and> getSettings (sample_env [] ''[5]'')
       = (Inr (GeminiSettings ''stored'' ''stored''),
          [RpcCall ''get_ai_provider'', RpcCall ''get_gemini_apikey'', RpcCall ''get_gemini_prompt''])"
  by (simp add: getSettings_def sample_env_def Let_def)

text \<open>
  C8, amended. When the read of the provider tag succeeds and the tag is non-empty and
  is none of \<open>gemini\<close>, \<open>deepseek\<close> and \<open>openrouter\<close>, the accessor fails with the error
  naming the unknown provider, after that one read, and returns no bundle.
\<close>

theorem getSettings_unknown_provider:
  assumes "rpc_error (rpc env ''get_ai_provider'') = None"
    and "rpc_data (rpc env ''get_ai_provider'') = Some tag"
    and "tag \<noteq> []"
    and "tag \<notin> {''gemini'', ''deepseek'', ''openrouter''}"
  shows "getSettings env = (Inl (Error (''Unknown AI provider: '' @ tag)), [RpcCall ''get_ai_provider''])"
  using assms by (simp add: getSettings_def Let_def)

theorem getSettings_unknown_provider_witness:
  "getSettings (sample_env ''claude'' ''[5]'')
     = (Inl (Error ''Unknown AI provider: claude''), [RpcCall ''get_ai_provider''])"
proof -
  have a: "rpc_error (rpc (sample_env ''claude'' ''[5]'') ''get_ai_provider'') = None"
    by (simp add: sample_env_def)
  have b: "rpc_data (rpc (sample_env ''claude'' ''[5]'') ''get_ai_provider'') = Some ''claude''"
    by (simp add: sample_env_def)
  have c: "''claude'' \<noteq> []" by simp
  have d: "''claude'' \<notin> {''gemini'', ''deepseek'', ''openrouter''}" by simp
  from getSettings_unknown_provider [OF a b c d] show ?thesis by simp
qed

end
